theory Spec2Isabelle
  imports Main "HOL-Library.AList"
begin

section \<open>Python values used by the gateway\<close>

text \<open>
  The module \<^verbatim>\<open>scrapling/api.py\<close> is a thin layer between FastAPI and the fetchers of
  Scrapling. Text is modelled as \<^typ>\<open>string\<close>; one \<^typ>\<open>char\<close> is one character
  with a code point below 256, which is exactly what Starlette hands over for a header
  value (it decodes header bytes as Latin-1).

  A Python exception is kept as its class name and the text that \<^verbatim>\<open>str(e)\<close> yields.
  Only subclasses of \<^verbatim>\<open>Exception\<close> are represented: they are what the
  \<^verbatim>\<open>except Exception\<close> clauses of the module catch.
\<close>

datatype exn = Exn (exn_class: string) (exn_str: string)

text \<open>
  What leaves a function by \<^verbatim>\<open>raise\<close>: an \<^verbatim>\<open>HTTPException\<close> with its status code
  and detail (FastAPI answers with that status), or any other exception, which nothing in
  the module handles.
\<close>

datatype raised = HTTPException nat string | Unhandled exn

text \<open>
  The values that occur as header items, cookie items, url, status and reason. Besides
  \<^verbatim>\<open>None\<close>, booleans, integers and strings there is \<open>AObject\<close>, any other object, kept
  as the name of its type and what the module can observe of it: whether it is hashable,
  what \<^verbatim>\<open>str\<close> of it does (a text, or an exception), and whether \<^verbatim>\<open>json.dumps\<close> can
  encode it.
\<close>

datatype atom =
    ANone
  | ABool bool
  | AInt int
  | AStr string
  | AObject string bool "exn + string" bool

text \<open>\<^verbatim>\<open>str(x)\<close> on these values.\<close>

definition digit_char :: "nat \<Rightarrow> char" where
  "digit_char d = char_of (48 + d)"

fun str_nat :: "nat \<Rightarrow> string" where
  "str_nat n = (if n < 10 then [digit_char n] else str_nat (n div 10) @ [digit_char (n mod 10)])"

declare str_nat.simps [simp del]

definition str_int :: "int \<Rightarrow> string" where
  "str_int i = (if i < 0 then CHR ''-'' # str_nat (nat (- i)) else str_nat (nat i))"

fun py_str :: "atom \<Rightarrow> exn + string" where
  "py_str ANone = Inr ''None''"
| "py_str (ABool b) = Inr (if b then ''True'' else ''False'')"
| "py_str (AInt i) = Inr (str_int i)"
| "py_str (AStr s) = Inr s"
| "py_str (AObject tn h printed j) = printed"

text \<open>
  Using a value as a dictionary key hashes it: \<^verbatim>\<open>d[k] = v\<close> raises \<^verbatim>\<open>TypeError\<close> when
  \<open>k\<close> is not hashable.
\<close>

fun unhashable :: "atom \<Rightarrow> exn option" where
  "unhashable (AObject tn h printed j) =
     (if h then None
      else Some (Exn ''TypeError'' (''unhashable type: '' @ [CHR 0x27] @ tn @ [CHR 0x27])))"
| "unhashable a = None"

text \<open>
  What \<^verbatim>\<open>json.dumps\<close> does with a value, and with a dictionary key (which must be
  \<^verbatim>\<open>str\<close>, \<^verbatim>\<open>int\<close>, \<^verbatim>\<open>float\<close>, \<^verbatim>\<open>bool\<close> or \<^verbatim>\<open>None\<close>): the exception it raises, if any.
\<close>

fun json_value :: "atom \<Rightarrow> exn option" where
  "json_value (AObject tn h printed j) =
     (if j then None
      else Some (Exn ''TypeError'' (''Object of type '' @ tn @ '' is not JSON serializable'')))"
| "json_value a = None"

fun json_key :: "atom \<Rightarrow> exn option" where
  "json_key (AObject tn h printed j) =
     (if tn = ''float'' then None
      else Some (Exn ''TypeError''
             (''keys must be str, int, float, bool or None, not '' @ tn)))"
| "json_key a = None"

text \<open>
  Equality of dictionary keys: \<^verbatim>\<open>True == 1\<close> and \<^verbatim>\<open>False == 0\<close> in Python, and they
  hash alike, so they are one key.
\<close>

fun py_eq :: "atom \<Rightarrow> atom \<Rightarrow> bool" where
  "py_eq (ABool b) (AInt i) = (i = (if b then 1 else 0))"
| "py_eq (AInt i) (ABool b) = (i = (if b then 1 else 0))"
| "py_eq a b = (a = b)"

text \<open>
  A dictionary keeps its items in insertion order. \<^verbatim>\<open>d[k] = v\<close> replaces the value of an
  existing key in place (the key object stays) and appends a new key otherwise.
\<close>

type_synonym pydict = "(atom \<times> atom) list"

fun dict_get :: "pydict \<Rightarrow> atom \<Rightarrow> atom option" where
  "dict_get [] k = None"
| "dict_get ((k', v') # d) k = (if py_eq k' k then Some v' else dict_get d k)"

fun dict_setitem :: "pydict \<Rightarrow> atom \<Rightarrow> atom \<Rightarrow> pydict" where
  "dict_setitem [] k v = [(k, v)]"
| "dict_setitem ((k', v') # d) k v =
     (if py_eq k' k then (k', v) # d else (k', v') # dict_setitem d k v)"

definition dict_update :: "pydict \<Rightarrow> pydict \<Rightarrow> pydict" where
  "dict_update d other = foldl (\<lambda>acc (k, v). dict_setitem acc k v) d other"

text \<open>
  An arbitrary JSON payload, as pydantic parses it; \<open>JNone\<close> is \<^verbatim>\<open>None\<close>. Numbers are
  integers here: the module only tests the payload against \<^verbatim>\<open>None\<close> and passes it on.
\<close>

datatype json =
    JNone
  | JBool bool
  | JInt int
  | JStr string
  | JList "json list"
  | JDict "(string \<times> json) list"


section \<open>API key authentication\<close>

text \<open>
  \<^verbatim>\<open>_get_api_key\<close> reads \<^verbatim>\<open>SCRAPLING_API_KEY\<close> from the environment, a map from
  variable names to values.
\<close>

definition get_api_key :: "(string \<rightharpoonup> string) \<Rightarrow> string option" where
  "get_api_key environ = environ ''SCRAPLING_API_KEY''"

text \<open>
  \<^verbatim>\<open>secrets.compare_digest\<close> is \<^verbatim>\<open>hmac.compare_digest\<close>. On two \<^verbatim>\<open>str\<close> arguments it
  answers whether they are equal, but only when both are ASCII; otherwise it raises
  \<^verbatim>\<open>TypeError\<close>.
\<close>

definition is_ascii :: "string \<Rightarrow> bool" where
  "is_ascii s = list_all (\<lambda>c. of_char c < (128::nat)) s"

definition compare_digest :: "string \<Rightarrow> string \<Rightarrow> exn + bool" where
  "compare_digest a b =
     (if is_ascii a \<and> is_ascii b then Inr (a = b)
      else Inl (Exn ''TypeError''
             ''comparing strings with non-ASCII characters is not supported''))"

text \<open>
  \<^verbatim>\<open>_verify_api_key\<close>. Its argument is what \<^verbatim>\<open>APIKeyHeader(name="X-API-Key",
  auto_error=False)\<close> extracted: \<open>None\<close> when the request has no such header (or an
  empty one).
\<close>

definition verify_api_key :: "(string \<rightharpoonup> string) \<Rightarrow> string option \<Rightarrow> raised + unit" where
  "verify_api_key environ api_key =
     (case get_api_key environ of
        None \<Rightarrow> Inr ()
      | Some expected \<Rightarrow>
          (case api_key of
             None \<Rightarrow>
               Inl (HTTPException 401 ''Missing API key. Provide it via the X-API-Key header.'')
           | Some key \<Rightarrow>
               (case compare_digest key expected of
                  Inl e \<Rightarrow> Inl (Unhandled e)
                | Inr same \<Rightarrow>
                    if same then Inr () else Inl (HTTPException 403 ''Invalid API key.''))))"


section \<open>Request models\<close>

text \<open>
  The pydantic models, one record each. Every optional field is an \<open>option\<close>: \<open>None\<close>
  is JSON \<^verbatim>\<open>null\<close>. A field that the request body leaves out takes the default the class
  declares; the \<open>_init\<close> definitions below build the request whose body holds the url only.
\<close>

type_synonym strdict = "(string \<times> string) list"

record FetcherGetRequest =
  url :: string
  headers :: "strdict option"
  cookies :: "strdict option"
  params :: "strdict option"
  proxy :: "string option"
  timeout :: "int option"
  follow_redirects :: "bool option"
  verify :: "bool option"
  impersonate :: "string option"
  stealthy_headers :: "bool option"
  css_selector :: "string option"
  xpath_selector :: "string option"

record FetcherDataRequest = FetcherGetRequest +
  data :: "strdict option"
  json_data :: json

record DynamicFetchRequest =
  url :: string
  headless :: "bool option"
  disable_resources :: "bool option"
  network_idle :: "bool option"
  load_dom :: "bool option"
  timeout :: "int option"
  wait :: "int option"
  wait_selector :: "string option"
  wait_selector_state :: "string option"
  locale' :: "string option"
  real_chrome :: "bool option"
  cdp_url :: "string option"
  proxy :: "string option"
  extra_headers :: "strdict option"
  useragent :: "string option"
  google_search :: "bool option"
  css_selector :: "string option"
  xpath_selector :: "string option"

record StealthyFetchRequest = DynamicFetchRequest +
  allow_webgl :: "bool option"
  hide_canvas :: "bool option"
  block_webrtc :: "bool option"
  solve_cloudflare :: "bool option"

definition FetcherGetRequest_init :: "string \<Rightarrow> FetcherGetRequest" where
  "FetcherGetRequest_init u =
     \<lparr> FetcherGetRequest.url = u,
       headers = None,
       cookies = None,
       params = None,
       FetcherGetRequest.proxy = None,
       FetcherGetRequest.timeout = Some 30,
       follow_redirects = Some True,
       verify = Some True,
       impersonate = None,
       stealthy_headers = Some True,
       FetcherGetRequest.css_selector = None,
       FetcherGetRequest.xpath_selector = None \<rparr>"

definition FetcherDataRequest_init :: "string \<Rightarrow> FetcherDataRequest" where
  "FetcherDataRequest_init u =
     FetcherGetRequest.extend (FetcherGetRequest_init u)
       (FetcherDataRequest.fields None JNone)"

definition DynamicFetchRequest_init :: "string \<Rightarrow> DynamicFetchRequest" where
  "DynamicFetchRequest_init u =
     \<lparr> DynamicFetchRequest.url = u,
       headless = Some True,
       disable_resources = Some False,
       network_idle = Some False,
       load_dom = Some True,
       DynamicFetchRequest.timeout = Some 30000,
       wait = None,
       wait_selector = None,
       wait_selector_state = Some ''attached'',
       locale' = None,
       real_chrome = Some False,
       cdp_url = None,
       DynamicFetchRequest.proxy = None,
       extra_headers = None,
       useragent = None,
       google_search = Some True,
       DynamicFetchRequest.css_selector = None,
       DynamicFetchRequest.xpath_selector = None \<rparr>"

definition StealthyFetchRequest_init :: "string \<Rightarrow> StealthyFetchRequest" where
  "StealthyFetchRequest_init u =
     DynamicFetchRequest.extend (DynamicFetchRequest_init u)
       (StealthyFetchRequest.fields (Some True) (Some False) (Some False) (Some False))"


section \<open>Option mappers\<close>

text \<open>
  The keyword arguments handed to a fetcher: a dictionary from names to values. A value
  is whatever the request field held, \<^verbatim>\<open>None\<close> included.
\<close>

datatype kwval =
    KNone
  | KBool bool
  | KInt int
  | KStr string
  | KDict strdict
  | KJson json

type_synonym kwargs = "string \<rightharpoonup> kwval"

definition opt_bool :: "bool option \<Rightarrow> kwval" where
  "opt_bool v = (case v of None \<Rightarrow> KNone | Some b \<Rightarrow> KBool b)"

definition opt_int :: "int option \<Rightarrow> kwval" where
  "opt_int v = (case v of None \<Rightarrow> KNone | Some i \<Rightarrow> KInt i)"

text \<open>Truth value of an optional string or dictionary: \<^verbatim>\<open>None\<close> and the empty one are false.\<close>

definition truthy :: "'a list option \<Rightarrow> bool" where
  "truthy v = (case v of None \<Rightarrow> False | Some xs \<Rightarrow> xs \<noteq> [])"

text \<open>\<^verbatim>\<open>if v: kwargs[k] = v\<close> for a string and for a dictionary.\<close>

definition set_if_str :: "string \<Rightarrow> string option \<Rightarrow> kwargs \<Rightarrow> kwargs" where
  "set_if_str k v kw = (case v of None \<Rightarrow> kw | Some s \<Rightarrow> if s \<noteq> [] then kw(k \<mapsto> KStr s) else kw)"

definition set_if_dict :: "string \<Rightarrow> strdict option \<Rightarrow> kwargs \<Rightarrow> kwargs" where
  "set_if_dict k v kw = (case v of None \<Rightarrow> kw | Some d \<Rightarrow> if d \<noteq> [] then kw(k \<mapsto> KDict d) else kw)"

text \<open>\<^verbatim>\<open>if v is not None: kwargs[k] = v\<close> for an integer and for a flag.\<close>

definition set_if_int :: "string \<Rightarrow> int option \<Rightarrow> kwargs \<Rightarrow> kwargs" where
  "set_if_int k v kw = (case v of None \<Rightarrow> kw | Some i \<Rightarrow> kw(k \<mapsto> KInt i))"

definition set_if_bool :: "string \<Rightarrow> bool option \<Rightarrow> kwargs \<Rightarrow> kwargs" where
  "set_if_bool k v kw = (case v of None \<Rightarrow> kw | Some b \<Rightarrow> kw(k \<mapsto> KBool b))"

text \<open>
  \<^verbatim>\<open>_build_fetcher_kwargs\<close>. Each statement of the source is one application; the first
  statement is the innermost, the last the outermost.
\<close>

definition build_fetcher_kwargs :: "'a FetcherGetRequest_scheme \<Rightarrow> kwargs" where
  "build_fetcher_kwargs req =
     (set_if_bool ''stealthy_headers'' (stealthy_headers req)
      (set_if_str ''impersonate'' (impersonate req)
      (set_if_bool ''verify'' (verify req)
      (set_if_bool ''follow_redirects'' (follow_redirects req)
      (set_if_int ''timeout'' (FetcherGetRequest.timeout req)
      (set_if_str ''proxy'' (FetcherGetRequest.proxy req)
      (set_if_dict ''params'' (params req)
      (set_if_dict ''cookies'' (cookies req)
      (set_if_dict ''headers'' (headers req)
       Map.empty)))))))))"

text \<open>
  \<^verbatim>\<open>_build_dynamic_kwargs\<close>: the dictionary literal with its seven entries innermost,
  then the conditional statements, the last one outermost.
\<close>

definition build_dynamic_kwargs :: "'a DynamicFetchRequest_scheme \<Rightarrow> kwargs" where
  "build_dynamic_kwargs req =
     (set_if_str ''useragent'' (useragent req)
      (set_if_dict ''extra_headers'' (extra_headers req)
      (set_if_str ''proxy'' (DynamicFetchRequest.proxy req)
      (set_if_str ''cdp_url'' (cdp_url req)
      (set_if_str ''locale'' (locale' req)
      (set_if_str ''wait_selector_state'' (wait_selector_state req)
      (set_if_str ''wait_selector'' (wait_selector req)
      (set_if_int ''wait'' (wait req)
       (Map.empty(
          ''headless'' \<mapsto> opt_bool (headless req),
          ''disable_resources'' \<mapsto> opt_bool (disable_resources req),
          ''network_idle'' \<mapsto> opt_bool (network_idle req),
          ''load_dom'' \<mapsto> opt_bool (load_dom req),
          ''timeout'' \<mapsto> opt_int (DynamicFetchRequest.timeout req),
          ''real_chrome'' \<mapsto> opt_bool (real_chrome req),
          ''google_search'' \<mapsto> opt_bool (google_search req)))))))))))"

text \<open>\<^verbatim>\<open>_build_stealthy_kwargs\<close>.\<close>

definition build_stealthy_kwargs :: "'a StealthyFetchRequest_scheme \<Rightarrow> kwargs" where
  "build_stealthy_kwargs req =
     (let kw = build_dynamic_kwargs req;
          kw = kw(''allow_webgl'' \<mapsto> opt_bool (allow_webgl req));
          kw = kw(''hide_canvas'' \<mapsto> opt_bool (hide_canvas req));
          kw = kw(''block_webrtc'' \<mapsto> opt_bool (block_webrtc req));
          kw = kw(''solve_cloudflare'' \<mapsto> opt_bool (solve_cloudflare req))
      in kw)"

text \<open>
  The two statements that \<^verbatim>\<open>fetcher_post\<close> and \<^verbatim>\<open>fetcher_put\<close> run after
  \<^verbatim>\<open>_build_fetcher_kwargs\<close>: \<^verbatim>\<open>if req.data: kwargs["data"] = req.data\<close> and
  \<^verbatim>\<open>if req.json_data is not None: kwargs["json"] = req.json_data\<close>.
\<close>

definition build_data_kwargs :: "'a FetcherDataRequest_scheme \<Rightarrow> kwargs" where
  "build_data_kwargs req =
     (let kw = build_fetcher_kwargs req;
          kw = set_if_dict ''data'' (data req) kw;
          kw = (if json_data req \<noteq> JNone then kw(''json'' \<mapsto> KJson (json_data req)) else kw)
      in kw)"


section \<open>The engine's response\<close>

text \<open>
  The fetchers return an object that the module reads through its attributes only.
  Reading an attribute gives its value or raises, so every attribute is a sum. The model
  fixes what the attributes may hold, shape by shape, as \<^verbatim>\<open>_response_to_dict\<close> tells
  them apart:
  \<^item> \<open>headers\<close>: \<^verbatim>\<open>None\<close>; an instance of \<^verbatim>\<open>dict\<close>, with its entries and, for a subclass
    that overrides \<^verbatim>\<open>items\<close>, the exception that iterating \<^verbatim>\<open>.items()\<close> raises; or
    another object, with what its truth test does and what iterating \<^verbatim>\<open>.items()\<close> does
    (an object with no \<^verbatim>\<open>items\<close> raises \<^verbatim>\<open>AttributeError\<close>);
  \<^item> \<open>cookies\<close>: \<^verbatim>\<open>None\<close>, a \<^verbatim>\<open>dict\<close>, a \<^verbatim>\<open>list\<close> or \<^verbatim>\<open>tuple\<close> whose members are
    dictionaries or something else, or another object with what its truth test does;
  \<^item> \<open>body\<close>: \<^verbatim>\<open>bytes\<close>, kept as the text that
    \<^verbatim>\<open>decode("utf-8", errors="replace")\<close> returns (it never raises), a \<^verbatim>\<open>str\<close>, or
    another object with what \<^verbatim>\<open>str\<close> of it does;
  \<^item> \<open>css\<close> and \<open>xpath\<close>: the result of running a selector and reading the matched
    elements, or the exception raised on the way; an element either has an \<^verbatim>\<open>html\<close>
    attribute or is shown by \<^verbatim>\<open>str\<close>;
  \<^item> \<open>to_str\<close>: what \<^verbatim>\<open>str(response)\<close> does.
  The dictionaries inside a response are well formed: their keys are hashable.
\<close>

datatype headers_obj =
    HeadersNone
  | HeadersDict pydict "exn option"
  | HeadersObject "exn + bool" "exn + (atom \<times> atom) list"

datatype cookie_item = CookieDict pydict | CookieOther

datatype cookies_obj =
    CookiesNone
  | CookiesDict pydict
  | CookiesList "cookie_item list"
  | CookiesTuple "cookie_item list"
  | CookiesObject "exn + bool"

datatype body_obj =
    BodyBytes string
  | BodyStr string
  | BodyObject "exn + string"

datatype element = WithHtml string | NoHtml string

record Response =
  url :: "exn + atom"
  status :: "exn + atom"
  reason :: "exn + atom"
  headers :: "exn + headers_obj"
  cookies :: "exn + cookies_obj"
  body :: "exn + body_obj"
  css :: "string \<Rightarrow> exn + element list"
  xpath :: "string \<Rightarrow> exn + element list"
  to_str :: "exn + string"

text \<open>The truth test \<^verbatim>\<open>if x:\<close>; only an object of another class can make it raise.\<close>

fun headers_truth :: "headers_obj \<Rightarrow> exn + bool" where
  "headers_truth HeadersNone = Inr False"
| "headers_truth (HeadersDict d overridden) = Inr (d \<noteq> [])"
| "headers_truth (HeadersObject t r) = t"

fun cookies_truth :: "cookies_obj \<Rightarrow> exn + bool" where
  "cookies_truth CookiesNone = Inr False"
| "cookies_truth (CookiesDict d) = Inr (d \<noteq> [])"
| "cookies_truth (CookiesList cs) = Inr (cs \<noteq> [])"
| "cookies_truth (CookiesTuple cs) = Inr (cs \<noteq> [])"
| "cookies_truth (CookiesObject t) = t"

text \<open>
  The calls that leave the module, in the order they are made: one entry for each call
  of a fetcher and of a selector method of the response.
\<close>

datatype call =
    EngineCall string string kwargs
  | CssCall string
  | XPathCall string


section \<open>Response normalizer\<close>

text \<open>
  \<^verbatim>\<open>{str(k): str(v) for k, v in items}\<close>, item by item, key before value; the first
  \<^verbatim>\<open>str\<close> that raises ends it.
\<close>

fun str_items :: "(atom \<times> atom) list \<Rightarrow> strdict \<Rightarrow> exn + strdict" where
  "str_items [] acc = Inr acc"
| "str_items ((k, v) # items) acc =
     (case py_str k of
        Inl e \<Rightarrow> Inl e
      | Inr ks \<Rightarrow>
          (case py_str v of
             Inl e \<Rightarrow> Inl e
           | Inr vs \<Rightarrow> str_items items (AList.update ks vs acc)))"

text \<open>
  Lines 122 to 130. The attribute is read and tested outside any \<^verbatim>\<open>try\<close>. For an
  instance of \<^verbatim>\<open>dict\<close> the comprehension runs unguarded; for any other object it runs
  inside \<^verbatim>\<open>try\<close>, and an exception gives the empty dictionary.
\<close>

definition extract_headers :: "exn + headers_obj \<Rightarrow> exn + strdict" where
  "extract_headers attr =
     (case attr of
        Inl e \<Rightarrow> Inl e
      | Inr h \<Rightarrow>
          (case headers_truth h of
             Inl e \<Rightarrow> Inl e
           | Inr t \<Rightarrow>
               if t then
                 (case h of
                    HeadersDict d overridden \<Rightarrow>
                      (case overridden of Some e \<Rightarrow> Inl e | None \<Rightarrow> str_items d [])
                  | HeadersObject t' r \<Rightarrow>
                      (case r of
                         Inl e \<Rightarrow> Inr []
                       | Inr items \<Rightarrow>
                           (case str_items items [] of Inl e \<Rightarrow> Inr [] | Inr sd \<Rightarrow> Inr sd))
                  | HeadersNone \<Rightarrow> Inr [])
               else Inr []))"

text \<open>
  The loop over a list or tuple of cookies, with \<^verbatim>\<open>resp_cookies\<close> as accumulator.
  \<^verbatim>\<open>resp_cookies[cookie["name"]] = cookie["value"]\<close> hashes the name and raises when it is
  not hashable; nothing catches that.
\<close>

fun cookie_loop :: "cookie_item list \<Rightarrow> pydict \<Rightarrow> exn + pydict" where
  "cookie_loop [] resp_cookies = Inr resp_cookies"
| "cookie_loop (CookieDict cookie # cs) resp_cookies =
     (case (dict_get cookie (AStr ''name''), dict_get cookie (AStr ''value'')) of
        (Some n, Some v) \<Rightarrow>
          (case unhashable n of
             Some e \<Rightarrow> Inl e
           | None \<Rightarrow> cookie_loop cs (dict_setitem resp_cookies n v))
      | _ \<Rightarrow> cookie_loop cs (dict_update resp_cookies cookie))"
| "cookie_loop (CookieOther # cs) resp_cookies = cookie_loop cs resp_cookies"

text \<open>Lines 132 to 142; no \<^verbatim>\<open>try\<close> here.\<close>

definition extract_cookies :: "exn + cookies_obj \<Rightarrow> exn + pydict" where
  "extract_cookies attr =
     (case attr of
        Inl e \<Rightarrow> Inl e
      | Inr c \<Rightarrow>
          (case cookies_truth c of
             Inl e \<Rightarrow> Inl e
           | Inr t \<Rightarrow>
               if t then
                 (case c of
                    CookiesDict d \<Rightarrow> Inr d
                  | CookiesList cs \<Rightarrow> cookie_loop cs []
                  | CookiesTuple cs \<Rightarrow> cookie_loop cs []
                  | _ \<Rightarrow> Inr [])
               else Inr []))"

text \<open>
  Lines 144 to 151. Reading the body and turning it into text happen inside \<^verbatim>\<open>try\<close>;
  the handler evaluates \<^verbatim>\<open>str(response)\<close>, and an exception there is not caught.
\<close>

definition extract_body :: "Response \<Rightarrow> exn + string" where
  "extract_body response =
     (case Response.body response of
        Inl e \<Rightarrow> to_str response
      | Inr b \<Rightarrow>
          (case b of
             BodyBytes decoded \<Rightarrow> Inr decoded
           | BodyStr s \<Rightarrow> Inr s
           | BodyObject r \<Rightarrow> (case r of Inr s \<Rightarrow> Inr s | Inl e \<Rightarrow> to_str response)))"

text \<open>\<^verbatim>\<open>el.html if hasattr(el, "html") else str(el)\<close>.\<close>

fun element_text :: "element \<Rightarrow> string" where
  "element_text (WithHtml h) = h"
| "element_text (NoHtml s) = s"

text \<open>The dictionary that \<^verbatim>\<open>_response_to_dict\<close> returns, one field for each key.\<close>

record ResponseDict =
  url :: string
  status :: atom
  reason :: atom
  headers :: strdict
  cookies :: pydict
  body :: string
  selected_content :: "string list option"

text \<open>
  Lines 153 to 166, the selection step: the value of \<^verbatim>\<open>selected\<close> and the selector calls
  made. Both calls sit inside \<^verbatim>\<open>try\<close>.
\<close>

definition select_content ::
  "Response \<Rightarrow> string option \<Rightarrow> string option \<Rightarrow> string list option \<times> call list" where
  "select_content response css_sel xpath_sel =
     (if truthy css_sel then
        (case css response (the css_sel) of
           Inr elements \<Rightarrow> (Some (map element_text elements), [CssCall (the css_sel)])
         | Inl e \<Rightarrow> (Some [''CSS selector error: '' @ exn_str e], [CssCall (the css_sel)]))
      else if truthy xpath_sel then
        (case xpath response (the xpath_sel) of
           Inr elements \<Rightarrow> (Some (map element_text elements), [XPathCall (the xpath_sel)])
         | Inl e \<Rightarrow> (Some [''XPath selector error: '' @ exn_str e], [XPathCall (the xpath_sel)]))
      else (None, []))"

text \<open>
  \<^verbatim>\<open>_response_to_dict\<close>: the dictionary, or the exception that left the function, and
  the selector calls made up to that point. The steps run in the order of the source:
  headers, cookies, body, selection, and then the dictionary literal of lines 168 to 176,
  which evaluates \<^verbatim>\<open>str(response.url)\<close>, \<^verbatim>\<open>response.status\<close> and \<^verbatim>\<open>response.reason\<close>
  outside any \<^verbatim>\<open>try\<close>.
\<close>

definition response_to_dict ::
  "Response \<Rightarrow> string option \<Rightarrow> string option \<Rightarrow> (exn + ResponseDict) \<times> call list" where
  "response_to_dict response css_sel xpath_sel =
     (case extract_headers (Response.headers response) of
        Inl e \<Rightarrow> (Inl e, [])
      | Inr resp_headers \<Rightarrow>
     (case extract_cookies (Response.cookies response) of
        Inl e \<Rightarrow> (Inl e, [])
      | Inr resp_cookies \<Rightarrow>
     (case extract_body response of
        Inl e \<Rightarrow> (Inl e, [])
      | Inr body_text \<Rightarrow>
     (let (selected, calls) = select_content response css_sel xpath_sel in
     (case Response.url response of
        Inl e \<Rightarrow> (Inl e, calls)
      | Inr u \<Rightarrow>
     (case py_str u of
        Inl e \<Rightarrow> (Inl e, calls)
      | Inr url_text \<Rightarrow>
     (case Response.status response of
        Inl e \<Rightarrow> (Inl e, calls)
      | Inr st \<Rightarrow>
     (case Response.reason response of
        Inl e \<Rightarrow> (Inl e, calls)
      | Inr rs \<Rightarrow>
          (Inr \<lparr> ResponseDict.url = url_text,
                 ResponseDict.status = st,
                 ResponseDict.reason = rs,
                 ResponseDict.headers = resp_headers,
                 ResponseDict.cookies = resp_cookies,
                 ResponseDict.body = body_text,
                 selected_content = selected \<rparr>, calls)))))))))"


section \<open>Routes\<close>

text \<open>
  The engine: the six operations the routes call. Each takes the url and the keyword
  arguments and returns a response or raises.
\<close>

record engine =
  Fetcher_get :: "string \<Rightarrow> kwargs \<Rightarrow> exn + Response"
  Fetcher_post :: "string \<Rightarrow> kwargs \<Rightarrow> exn + Response"
  Fetcher_put :: "string \<Rightarrow> kwargs \<Rightarrow> exn + Response"
  Fetcher_delete :: "string \<Rightarrow> kwargs \<Rightarrow> exn + Response"
  DynamicFetcher_fetch :: "string \<Rightarrow> kwargs \<Rightarrow> exn + Response"
  StealthyFetcher_fetch :: "string \<Rightarrow> kwargs \<Rightarrow> exn + Response"

text \<open>
  \<^verbatim>\<open>JSONResponse(content=...)\<close> renders the dictionary with \<^verbatim>\<open>json.dumps\<close> at once, key
  by key in the order of the literal. The url, the headers, the body and the selected
  content are strings; the status, the reason and the cookies hold whatever the response
  held, so encoding them can raise.
\<close>

datatype http_response = JSONResponse ResponseDict

fun json_items :: "pydict \<Rightarrow> exn option" where
  "json_items [] = None"
| "json_items ((k, v) # d) =
     (case json_key k of
        Some e \<Rightarrow> Some e
      | None \<Rightarrow> (case json_value v of Some e \<Rightarrow> Some e | None \<Rightarrow> json_items d))"

definition json_response :: "ResponseDict \<Rightarrow> exn + http_response" where
  "json_response content =
     (case json_value (ResponseDict.status content) of
        Some e \<Rightarrow> Inl e
      | None \<Rightarrow>
     (case json_value (ResponseDict.reason content) of
        Some e \<Rightarrow> Inl e
      | None \<Rightarrow>
     (case json_items (ResponseDict.cookies content) of
        Some e \<Rightarrow> Inl e
      | None \<Rightarrow> Inr (JSONResponse content))))"

text \<open>
  An endpoint returns a \<^verbatim>\<open>JSONResponse\<close> (status 200) or raises; with it goes the list of
  outside calls it made.
\<close>

type_synonym outcome = "(raised + http_response) \<times> call list"

text \<open>
  The part every fetch endpoint shares after the keyword arguments are built:
  \<^verbatim>\<open>try: response = op(req.url, **kwargs)\<close>,
  \<^verbatim>\<open>except Exception as e: raise HTTPException(status_code=502, detail=str(e))\<close>, then
  \<^verbatim>\<open>return JSONResponse(content=_response_to_dict(response, req.css_selector,
  req.xpath_selector))\<close>. Only the call of the engine is inside the \<^verbatim>\<open>try\<close>: an exception
  raised by \<^verbatim>\<open>_response_to_dict\<close> or by \<^verbatim>\<open>JSONResponse\<close> leaves the endpoint as it is,
  which is what \<open>respond\<close> says.
\<close>

definition respond :: "exn + ResponseDict \<Rightarrow> raised + http_response" where
  "respond result =
     (case result of
        Inl e \<Rightarrow> Inl (Unhandled e)
      | Inr content \<Rightarrow>
          (case json_response content of
             Inl e \<Rightarrow> Inl (Unhandled e)
           | Inr answer \<Rightarrow> Inr answer))"

definition call_and_respond ::
  "string \<Rightarrow> (string \<Rightarrow> kwargs \<Rightarrow> exn + Response) \<Rightarrow> string \<Rightarrow> kwargs \<Rightarrow>
   string option \<Rightarrow> string option \<Rightarrow> outcome" where
  "call_and_respond name op u kw css_sel xpath_sel =
     (case op u kw of
        Inl e \<Rightarrow> (Inl (HTTPException 502 (exn_str e)), [EngineCall name u kw])
      | Inr response \<Rightarrow>
          (let (result, calls) = response_to_dict response css_sel xpath_sel
           in (respond result, EngineCall name u kw # calls)))"

definition fetcher_get :: "engine \<Rightarrow> FetcherGetRequest \<Rightarrow> outcome" where
  "fetcher_get eng req =
     (let kw = build_fetcher_kwargs req
      in call_and_respond ''Fetcher.get'' (Fetcher_get eng) (FetcherGetRequest.url req) kw
           (FetcherGetRequest.css_selector req) (FetcherGetRequest.xpath_selector req))"

definition fetcher_post :: "engine \<Rightarrow> FetcherDataRequest \<Rightarrow> outcome" where
  "fetcher_post eng req =
     (let kw = build_data_kwargs req
      in call_and_respond ''Fetcher.post'' (Fetcher_post eng) (FetcherGetRequest.url req) kw
           (FetcherGetRequest.css_selector req) (FetcherGetRequest.xpath_selector req))"

definition fetcher_put :: "engine \<Rightarrow> FetcherDataRequest \<Rightarrow> outcome" where
  "fetcher_put eng req =
     (let kw = build_data_kwargs req
      in call_and_respond ''Fetcher.put'' (Fetcher_put eng) (FetcherGetRequest.url req) kw
           (FetcherGetRequest.css_selector req) (FetcherGetRequest.xpath_selector req))"

definition fetcher_delete :: "engine \<Rightarrow> FetcherGetRequest \<Rightarrow> outcome" where
  "fetcher_delete eng req =
     (let kw = build_fetcher_kwargs req
      in call_and_respond ''Fetcher.delete'' (Fetcher_delete eng) (FetcherGetRequest.url req) kw
           (FetcherGetRequest.css_selector req) (FetcherGetRequest.xpath_selector req))"

definition dynamic_fetch :: "engine \<Rightarrow> DynamicFetchRequest \<Rightarrow> outcome" where
  "dynamic_fetch eng req =
     (let kw = build_dynamic_kwargs req
      in call_and_respond ''DynamicFetcher.fetch'' (DynamicFetcher_fetch eng)
           (DynamicFetchRequest.url req) kw
           (DynamicFetchRequest.css_selector req) (DynamicFetchRequest.xpath_selector req))"

definition stealthy_fetch :: "engine \<Rightarrow> StealthyFetchRequest \<Rightarrow> outcome" where
  "stealthy_fetch eng req =
     (let kw = build_stealthy_kwargs req
      in call_and_respond ''StealthyFetcher.fetch'' (StealthyFetcher_fetch eng)
           (DynamicFetchRequest.url req) kw
           (DynamicFetchRequest.css_selector req) (DynamicFetchRequest.xpath_selector req))"

text \<open>
  \<^verbatim>\<open>dependencies=[Depends(_verify_api_key)]\<close>: the guard runs before the endpoint; when it
  raises, the endpoint does not run.
\<close>

definition protected :: "(string \<rightharpoonup> string) \<Rightarrow> string option \<Rightarrow> outcome \<Rightarrow> outcome" where
  "protected environ api_key endpoint =
     (case verify_api_key environ api_key of
        Inl r \<Rightarrow> (Inl r, [])
      | Inr u \<Rightarrow> endpoint)"

text \<open>
  The status the client sees: the code of an \<^verbatim>\<open>HTTPException\<close>, 500 for an exception
  nothing handled, 200 for a \<^verbatim>\<open>JSONResponse\<close>.
\<close>

fun status_code :: "raised + http_response \<Rightarrow> nat" where
  "status_code (Inl (HTTPException code detail)) = code"
| "status_code (Inl (Unhandled e)) = 500"
| "status_code (Inr (JSONResponse content)) = 200"

text \<open>
  The routing table: a validated request together with the route it was posted to, and
  the endpoint each route runs.
\<close>

datatype request =
    Get FetcherGetRequest
  | Post FetcherDataRequest
  | Put FetcherDataRequest
  | Delete FetcherGetRequest
  | Dynamic DynamicFetchRequest
  | Stealthy StealthyFetchRequest

fun endpoint :: "engine \<Rightarrow> request \<Rightarrow> outcome" where
  "endpoint eng (Get req) = fetcher_get eng req"
| "endpoint eng (Post req) = fetcher_post eng req"
| "endpoint eng (Put req) = fetcher_put eng req"
| "endpoint eng (Delete req) = fetcher_delete eng req"
| "endpoint eng (Dynamic req) = dynamic_fetch eng req"
| "endpoint eng (Stealthy req) = stealthy_fetch eng req"

text \<open>What the engine does when the route's operation is invoked on the mapped request.\<close>

fun engine_result :: "engine \<Rightarrow> request \<Rightarrow> exn + Response" where
  "engine_result eng (Get req) =
     Fetcher_get eng (FetcherGetRequest.url req) (build_fetcher_kwargs req)"
| "engine_result eng (Post req) =
     Fetcher_post eng (FetcherGetRequest.url req) (build_data_kwargs req)"
| "engine_result eng (Put req) =
     Fetcher_put eng (FetcherGetRequest.url req) (build_data_kwargs req)"
| "engine_result eng (Delete req) =
     Fetcher_delete eng (FetcherGetRequest.url req) (build_fetcher_kwargs req)"
| "engine_result eng (Dynamic req) =
     DynamicFetcher_fetch eng (DynamicFetchRequest.url req) (build_dynamic_kwargs req)"
| "engine_result eng (Stealthy req) =
     StealthyFetcher_fetch eng (DynamicFetchRequest.url req) (build_stealthy_kwargs req)"

fun request_css :: "request \<Rightarrow> string option" where
  "request_css (Get req) = FetcherGetRequest.css_selector req"
| "request_css (Post req) = FetcherGetRequest.css_selector req"
| "request_css (Put req) = FetcherGetRequest.css_selector req"
| "request_css (Delete req) = FetcherGetRequest.css_selector req"
| "request_css (Dynamic req) = DynamicFetchRequest.css_selector req"
| "request_css (Stealthy req) = DynamicFetchRequest.css_selector req"

fun request_xpath :: "request \<Rightarrow> string option" where
  "request_xpath (Get req) = FetcherGetRequest.xpath_selector req"
| "request_xpath (Post req) = FetcherGetRequest.xpath_selector req"
| "request_xpath (Put req) = FetcherGetRequest.xpath_selector req"
| "request_xpath (Delete req) = FetcherGetRequest.xpath_selector req"
| "request_xpath (Dynamic req) = DynamicFetchRequest.xpath_selector req"
| "request_xpath (Stealthy req) = DynamicFetchRequest.xpath_selector req"


fun call_kwargs :: "call \<Rightarrow> kwargs" where
  "call_kwargs (EngineCall name u kw) = kw"
| "call_kwargs c = Map.empty"

fun call_name :: "call \<Rightarrow> string" where
  "call_name (EngineCall name u kw) = name"
| "call_name (CssCall s) = ''css''"
| "call_name (XPathCall s) = ''xpath''"


text \<open>The call of the engine that a route makes.\<close>

fun engine_call :: "request \<Rightarrow> call" where
  "engine_call (Get req) =
     EngineCall ''Fetcher.get'' (FetcherGetRequest.url req) (build_fetcher_kwargs req)"
| "engine_call (Post req) =
     EngineCall ''Fetcher.post'' (FetcherGetRequest.url req) (build_data_kwargs req)"
| "engine_call (Put req) =
     EngineCall ''Fetcher.put'' (FetcherGetRequest.url req) (build_data_kwargs req)"
| "engine_call (Delete req) =
     EngineCall ''Fetcher.delete'' (FetcherGetRequest.url req) (build_fetcher_kwargs req)"
| "engine_call (Dynamic req) =
     EngineCall ''DynamicFetcher.fetch'' (DynamicFetchRequest.url req) (build_dynamic_kwargs req)"
| "engine_call (Stealthy req) =
     EngineCall ''StealthyFetcher.fetch'' (DynamicFetchRequest.url req)
       (build_stealthy_kwargs req)"


section \<open>Sample values\<close>

text \<open>
  A well-formed response; a response whose headers raise when iterated, whose cookies
  are some object that is neither a dictionary nor a sequence, whose body is an object
  that cannot be printed, and whose selectors raise; and an engine all of whose
  operations give the same answer.
\<close>

definition sample_response :: Response where
  "sample_response =
     \<lparr> Response.url = Inr (AStr ''https://example.com''),
       Response.status = Inr (AInt 200),
       Response.reason = Inr (AStr ''OK''),
       Response.headers = Inr (HeadersDict [(AStr ''content-type'', AStr ''text/html'')] None),
       Response.cookies = Inr (CookiesDict [(AStr ''sid'', AStr ''42'')]),
       Response.body = Inr (BodyStr ''<html></html>''),
       css = (\<lambda>sel. Inr [WithHtml ''<p>css</p>'']),
       xpath = (\<lambda>sel. Inr [WithHtml ''<a>xpath</a>'']),
       to_str = Inr ''<200 https://example.com>'' \<rparr>"


definition constant_engine :: "exn + Response \<Rightarrow> engine" where
  "constant_engine answer =
     \<lparr> Fetcher_get = (\<lambda>u kw. answer),
       Fetcher_post = (\<lambda>u kw. answer),
       Fetcher_put = (\<lambda>u kw. answer),
       Fetcher_delete = (\<lambda>u kw. answer),
       DynamicFetcher_fetch = (\<lambda>u kw. answer),
       StealthyFetcher_fetch = (\<lambda>u kw. answer) \<rparr>"


section \<open>Facts about the option mappers\<close>

lemma set_if_str_apply:
  "set_if_str k v kw k' = (if k' = k \<and> truthy v then map_option KStr v else kw k')"
  by (simp add: set_if_str_def truthy_def split: option.splits)

lemma set_if_dict_apply:
  "set_if_dict k v kw k' = (if k' = k \<and> truthy v then map_option KDict v else kw k')"
  by (simp add: set_if_dict_def truthy_def split: option.splits)

lemma set_if_int_apply:
  "set_if_int k v kw k' = (if k' = k \<and> v \<noteq> None then map_option KInt v else kw k')"
  by (simp add: set_if_int_def split: option.splits)

lemma set_if_bool_apply:
  "set_if_bool k v kw k' = (if k' = k \<and> v \<noteq> None then map_option KBool v else kw k')"
  by (simp add: set_if_bool_def split: option.splits)

lemmas set_if_apply = set_if_str_apply set_if_dict_apply set_if_int_apply set_if_bool_apply

subsection \<open>\<open>build_fetcher_kwargs\<close>, key by key\<close>

lemma fetcher_headers:
  "build_fetcher_kwargs req ''headers'' =
     (if truthy (FetcherGetRequest.headers req)
      then map_option KDict (FetcherGetRequest.headers req) else None)"
  by (simp add: build_fetcher_kwargs_def set_if_apply)

lemma fetcher_cookies:
  "build_fetcher_kwargs req ''cookies'' =
     (if truthy (FetcherGetRequest.cookies req)
      then map_option KDict (FetcherGetRequest.cookies req) else None)"
  by (simp add: build_fetcher_kwargs_def set_if_apply)

lemma fetcher_params:
  "build_fetcher_kwargs req ''params'' =
     (if truthy (params req) then map_option KDict (params req) else None)"
  by (simp add: build_fetcher_kwargs_def set_if_apply)

lemma fetcher_proxy:
  "build_fetcher_kwargs req ''proxy'' =
     (if truthy (FetcherGetRequest.proxy req)
      then map_option KStr (FetcherGetRequest.proxy req) else None)"
  by (simp add: build_fetcher_kwargs_def set_if_apply)

lemma fetcher_timeout:
  "build_fetcher_kwargs req ''timeout'' = map_option KInt (FetcherGetRequest.timeout req)"
  by (simp add: build_fetcher_kwargs_def set_if_apply)

lemma fetcher_follow_redirects:
  "build_fetcher_kwargs req ''follow_redirects'' = map_option KBool (follow_redirects req)"
  by (simp add: build_fetcher_kwargs_def set_if_apply)

lemma fetcher_verify:
  "build_fetcher_kwargs req ''verify'' = map_option KBool (verify req)"
  by (simp add: build_fetcher_kwargs_def set_if_apply)

lemma fetcher_impersonate:
  "build_fetcher_kwargs req ''impersonate'' =
     (if truthy (impersonate req) then map_option KStr (impersonate req) else None)"
  by (simp add: build_fetcher_kwargs_def set_if_apply)

lemma fetcher_stealthy_headers:
  "build_fetcher_kwargs req ''stealthy_headers'' = map_option KBool (stealthy_headers req)"
  by (simp add: build_fetcher_kwargs_def set_if_apply)

lemma fetcher_other:
  assumes "k \<noteq> ''headers''" "k \<noteq> ''cookies''" "k \<noteq> ''params''" "k \<noteq> ''proxy''"
    "k \<noteq> ''timeout''" "k \<noteq> ''follow_redirects''" "k \<noteq> ''verify''"
    "k \<noteq> ''impersonate''" "k \<noteq> ''stealthy_headers''"
  shows "build_fetcher_kwargs req k = None"
  using assms by (simp add: build_fetcher_kwargs_def set_if_apply)

lemma fetcher_dom:
  "dom (build_fetcher_kwargs req) \<subseteq>
     {''headers'', ''cookies'', ''params'', ''proxy'', ''timeout'', ''follow_redirects'',
      ''verify'', ''impersonate'', ''stealthy_headers''}"
proof
  fix k
  assume "k \<in> dom (build_fetcher_kwargs req)"
  then have some: "build_fetcher_kwargs req k \<noteq> None"
    by (simp add: dom_def)
  have "k = ''headers'' \<or> k = ''cookies'' \<or> k = ''params'' \<or> k = ''proxy'' \<or>
        k = ''timeout'' \<or> k = ''follow_redirects'' \<or> k = ''verify'' \<or>
        k = ''impersonate'' \<or> k = ''stealthy_headers''"
  proof (rule ccontr)
    assume "\<not> ?thesis"
    then have "build_fetcher_kwargs req k = None"
      by (intro fetcher_other) (simp_all only: de_Morgan_disj not_False_eq_True)
    with some show False by simp
  qed
  then show "k \<in> {''headers'', ''cookies'', ''params'', ''proxy'', ''timeout'',
      ''follow_redirects'', ''verify'', ''impersonate'', ''stealthy_headers''}"
    by (simp only: insert_iff empty_iff simp_thms)
qed

lemma fetcher_init_fields:
  "FetcherGetRequest.headers (FetcherGetRequest_init u) = None"
  "FetcherGetRequest.cookies (FetcherGetRequest_init u) = None"
  "params (FetcherGetRequest_init u) = None"
  "FetcherGetRequest.proxy (FetcherGetRequest_init u) = None"
  "FetcherGetRequest.timeout (FetcherGetRequest_init u) = Some 30"
  "follow_redirects (FetcherGetRequest_init u) = Some True"
  "verify (FetcherGetRequest_init u) = Some True"
  "impersonate (FetcherGetRequest_init u) = None"
  "stealthy_headers (FetcherGetRequest_init u) = Some True"
  by (simp_all add: FetcherGetRequest_init_def)

subsection \<open>\<open>build_dynamic_kwargs\<close>, key by key\<close>

lemma dynamic_headless:
  "build_dynamic_kwargs req ''headless'' = Some (opt_bool (headless req))"
  by (simp add: build_dynamic_kwargs_def set_if_apply)

lemma dynamic_disable_resources:
  "build_dynamic_kwargs req ''disable_resources'' = Some (opt_bool (disable_resources req))"
  by (simp add: build_dynamic_kwargs_def set_if_apply)

lemma dynamic_network_idle:
  "build_dynamic_kwargs req ''network_idle'' = Some (opt_bool (network_idle req))"
  by (simp add: build_dynamic_kwargs_def set_if_apply)

lemma dynamic_load_dom:
  "build_dynamic_kwargs req ''load_dom'' = Some (opt_bool (load_dom req))"
  by (simp add: build_dynamic_kwargs_def set_if_apply)

lemma dynamic_timeout:
  "build_dynamic_kwargs req ''timeout'' = Some (opt_int (DynamicFetchRequest.timeout req))"
  by (simp add: build_dynamic_kwargs_def set_if_apply)

lemma dynamic_real_chrome:
  "build_dynamic_kwargs req ''real_chrome'' = Some (opt_bool (real_chrome req))"
  by (simp add: build_dynamic_kwargs_def set_if_apply)

lemma dynamic_google_search:
  "build_dynamic_kwargs req ''google_search'' = Some (opt_bool (google_search req))"
  by (simp add: build_dynamic_kwargs_def set_if_apply)

lemma dynamic_wait:
  "build_dynamic_kwargs req ''wait'' = map_option KInt (wait req)"
  by (simp add: build_dynamic_kwargs_def set_if_apply)

lemma dynamic_wait_selector:
  "build_dynamic_kwargs req ''wait_selector'' =
     (if truthy (wait_selector req) then map_option KStr (wait_selector req) else None)"
  by (simp add: build_dynamic_kwargs_def set_if_apply)

lemma dynamic_wait_selector_state:
  "build_dynamic_kwargs req ''wait_selector_state'' =
     (if truthy (wait_selector_state req) then map_option KStr (wait_selector_state req)
      else None)"
  by (simp add: build_dynamic_kwargs_def set_if_apply)

lemma dynamic_locale:
  "build_dynamic_kwargs req ''locale'' =
     (if truthy (locale' req) then map_option KStr (locale' req) else None)"
  by (simp add: build_dynamic_kwargs_def set_if_apply)

lemma dynamic_cdp_url:
  "build_dynamic_kwargs req ''cdp_url'' =
     (if truthy (cdp_url req) then map_option KStr (cdp_url req) else None)"
  by (simp add: build_dynamic_kwargs_def set_if_apply)

lemma dynamic_proxy:
  "build_dynamic_kwargs req ''proxy'' =
     (if truthy (DynamicFetchRequest.proxy req)
      then map_option KStr (DynamicFetchRequest.proxy req) else None)"
  by (simp add: build_dynamic_kwargs_def set_if_apply)

lemma dynamic_extra_headers:
  "build_dynamic_kwargs req ''extra_headers'' =
     (if truthy (extra_headers req) then map_option KDict (extra_headers req) else None)"
  by (simp add: build_dynamic_kwargs_def set_if_apply)

lemma dynamic_useragent:
  "build_dynamic_kwargs req ''useragent'' =
     (if truthy (useragent req) then map_option KStr (useragent req) else None)"
  by (simp add: build_dynamic_kwargs_def set_if_apply)

lemma dynamic_stealth_keys:
  "build_dynamic_kwargs req ''allow_webgl'' = None"
  "build_dynamic_kwargs req ''hide_canvas'' = None"
  "build_dynamic_kwargs req ''block_webrtc'' = None"
  "build_dynamic_kwargs req ''solve_cloudflare'' = None"
  by (simp_all add: build_dynamic_kwargs_def set_if_apply)

lemma dynamic_init_fields:
  "headless (DynamicFetchRequest_init u) = Some True"
  "disable_resources (DynamicFetchRequest_init u) = Some False"
  "network_idle (DynamicFetchRequest_init u) = Some False"
  "load_dom (DynamicFetchRequest_init u) = Some True"
  "DynamicFetchRequest.timeout (DynamicFetchRequest_init u) = Some 30000"
  "real_chrome (DynamicFetchRequest_init u) = Some False"
  "google_search (DynamicFetchRequest_init u) = Some True"
  "wait_selector_state (DynamicFetchRequest_init u) = Some ''attached''"
  by (simp_all add: DynamicFetchRequest_init_def)

subsection \<open>\<open>build_stealthy_kwargs\<close> and the body options\<close>

lemma build_stealthy_kwargs_upd:
  "build_stealthy_kwargs req =
     (build_dynamic_kwargs req)
       (''allow_webgl'' \<mapsto> opt_bool (allow_webgl req),
        ''hide_canvas'' \<mapsto> opt_bool (hide_canvas req),
        ''block_webrtc'' \<mapsto> opt_bool (block_webrtc req),
        ''solve_cloudflare'' \<mapsto> opt_bool (solve_cloudflare req))"
  by (simp add: build_stealthy_kwargs_def Let_def)

lemma build_data_kwargs_data:
  "build_data_kwargs req ''data'' = (if truthy (data req) then map_option KDict (data req) else None)"
  by (simp add: build_data_kwargs_def Let_def set_if_dict_apply fetcher_other)

lemma build_data_kwargs_json:
  "build_data_kwargs req ''json'' =
     (if json_data req \<noteq> JNone then Some (KJson (json_data req)) else None)"
  by (simp add: build_data_kwargs_def Let_def set_if_dict_apply fetcher_other)


section \<open>Facts about the normalizer and the routes\<close>

lemma select_content_none:
  "select_content r None None = (None, [])"
  by (simp add: select_content_def truthy_def)

lemma select_content_css:
  "c \<noteq> [] \<Longrightarrow> select_content r (Some c) x =
     (Some (case css r c of Inr els \<Rightarrow> map element_text els
            | Inl e \<Rightarrow> [''CSS selector error: '' @ exn_str e]), [CssCall c])"
  by (simp add: select_content_def truthy_def split: sum.splits)

lemma select_content_xpath:
  "\<not> truthy c \<Longrightarrow> x \<noteq> [] \<Longrightarrow> select_content r c (Some x) =
     (Some (case xpath r x of Inr els \<Rightarrow> map element_text els
            | Inl e \<Rightarrow> [''XPath selector error: '' @ exn_str e]), [XPathCall x])"
  by (simp add: select_content_def truthy_def split: sum.splits)


lemma select_content_at_most_one:
  "length (snd (select_content r c x)) \<le> 1"
  by (simp add: select_content_def split: sum.splits)

text \<open>
  The result of the normalizer with selectors is its result without, with
  \<open>selected_content\<close> replaced; an exception is the same with and without.
\<close>

lemma fst_response_to_dict:
  "fst (response_to_dict r c x) =
     map_sum id (\<lambda>d. d\<lparr>selected_content := fst (select_content r c x)\<rparr>)
       (fst (response_to_dict r None None))"
  by (simp add: response_to_dict_def select_content_none split: sum.splits prod.splits)

lemma snd_response_to_dict:
  "snd (response_to_dict r c x) =
     (if isl (extract_headers (Response.headers r)) \<or> isl (extract_cookies (Response.cookies r))
         \<or> isl (extract_body r)
      then [] else snd (select_content r c x))"
  by (simp add: response_to_dict_def split: sum.splits prod.splits)






lemma call_and_respond_Inr:
  "op u kw = Inr r \<Longrightarrow>
   call_and_respond name op u kw c x =
     (respond (fst (response_to_dict r c x)),
      EngineCall name u kw # snd (response_to_dict r c x))"
  by (simp add: call_and_respond_def split: prod.splits)

lemmas endpoint_defs =
  fetcher_get_def fetcher_post_def fetcher_put_def fetcher_delete_def
  dynamic_fetch_def stealthy_fetch_def


lemma endpoint_Inr:
  "engine_result eng rq = Inr r \<Longrightarrow>
   endpoint eng rq =
     (respond (fst (response_to_dict r (request_css rq) (request_xpath rq))),
      engine_call rq # snd (response_to_dict r (request_css rq) (request_xpath rq)))"
  by (cases rq) (simp_all add: endpoint_defs Let_def call_and_respond_Inr)


lemma constant_engine_result: "engine_result (constant_engine answer) rq = answer"
  by (cases rq) (simp_all add: constant_engine_def)


section \<open>The auth guard\<close>

text \<open>
  What \<open>verify_api_key\<close> answers, case by case. With no key configured the header is
  never looked at. With a key configured, a missing header is a 401. A header that is
  present reaches \<^verbatim>\<open>secrets.compare_digest\<close>: when header and key are both ASCII the
  answer is a 403 or a pass, according to equality; when either holds a character beyond
  ASCII, \<^verbatim>\<open>compare_digest\<close> raises and the \<^verbatim>\<open>TypeError\<close> leaves the guard.
\<close>

lemma verify_api_key_cases:
  "verify_api_key environ api_key =
     (case environ ''SCRAPLING_API_KEY'' of
        None \<Rightarrow> Inr ()
      | Some expected \<Rightarrow>
          (case api_key of
             None \<Rightarrow>
               Inl (HTTPException 401 ''Missing API key. Provide it via the X-API-Key header.'')
           | Some key \<Rightarrow>
               if is_ascii key \<and> is_ascii expected then
                 (if key = expected then Inr () else Inl (HTTPException 403 ''Invalid API key.''))
               else Inl (Unhandled (Exn ''TypeError''
                      ''comparing strings with non-ASCII characters is not supported''))))"
  by (simp add: verify_api_key_def get_api_key_def compare_digest_def split: option.splits)

text \<open>
  C1. The claim: with no key configured every request passes, whatever the header; with
  a key configured a missing header is answered 401, a header that differs from the key
  403, and a header equal to the key passes.

  The code departs from it where \<^verbatim>\<open>compare_digest\<close> raises. With the key \<^verbatim>\<open>secret\<close>
  configured and the header \<^verbatim>\<open>X-API-Key\<close> holding the single character U+00E9, the
  header is present and differs from the key, yet the guard raises \<^verbatim>\<open>TypeError\<close> instead
  of the 403, and the client is answered 500.
\<close>

theorem verify_api_key_non_ascii_header:
  "verify_api_key [''SCRAPLING_API_KEY'' \<mapsto> ''secret''] (Some [CHR 0xE9]) =
     Inl (Unhandled (Exn ''TypeError''
       ''comparing strings with non-ASCII characters is not supported''))
   \<and> status_code (fst (protected [''SCRAPLING_API_KEY'' \<mapsto> ''secret''] (Some [CHR 0xE9]) ep)) = 500
   \<and> snd (protected [''SCRAPLING_API_KEY'' \<mapsto> ''secret''] (Some [CHR 0xE9]) ep) = []"
  by (simp add: protected_def verify_api_key_cases is_ascii_def)


section \<open>The option mappers\<close>

text \<open>
  C2. The claim: the map built for a plain fetch holds a key only if the request gave
  that field a value that is not null (and, for a string, not empty); a field the body
  leaves out never appears, and \<open>timeout\<close>, \<open>follow_redirects\<close>, \<open>verify\<close> and
  \<open>stealthy_headers\<close> are omitted when left at their defaults.

  It fails at the request whose body is the url alone: the four fields take the defaults
  of the model, which are not null, and all four are forwarded.
\<close>

theorem build_fetcher_kwargs_defaults_forwarded:
  "''timeout'' \<in> dom (build_fetcher_kwargs (FetcherGetRequest_init ''https://example.com''))
   \<and> build_fetcher_kwargs (FetcherGetRequest_init ''https://example.com'') ''timeout''
       = Some (KInt 30)
   \<and> build_fetcher_kwargs (FetcherGetRequest_init ''https://example.com'') ''follow_redirects''
       = Some (KBool True)
   \<and> build_fetcher_kwargs (FetcherGetRequest_init ''https://example.com'') ''verify''
       = Some (KBool True)
   \<and> build_fetcher_kwargs (FetcherGetRequest_init ''https://example.com'') ''stealthy_headers''
       = Some (KBool True)"
  by (simp add: dom_def fetcher_timeout fetcher_follow_redirects fetcher_verify
        fetcher_stealthy_headers fetcher_init_fields)

text \<open>
  C2, as the code has it. The map has no key but the nine field names. A key is present
  exactly when the validated request holds a value for the field that is not null and,
  for a string or a dictionary, not empty; the entry is that value. For the request whose
  body is the url alone, whatever the url, the keys are exactly \<open>timeout\<close>,
  \<open>follow_redirects\<close>, \<open>verify\<close> and \<open>stealthy_headers\<close>, with the values 30, true, true
  and true of the model.
\<close>

theorem build_fetcher_kwargs_omission:
  "dom (build_fetcher_kwargs req) \<subseteq>
     {''headers'', ''cookies'', ''params'', ''proxy'', ''timeout'', ''follow_redirects'',
      ''verify'', ''impersonate'', ''stealthy_headers''}
   \<and> build_fetcher_kwargs req ''headers'' =
       (if truthy (FetcherGetRequest.headers req)
        then map_option KDict (FetcherGetRequest.headers req) else None)
   \<and> build_fetcher_kwargs req ''cookies'' =
       (if truthy (FetcherGetRequest.cookies req)
        then map_option KDict (FetcherGetRequest.cookies req) else None)
   \<and> build_fetcher_kwargs req ''params'' =
       (if truthy (params req) then map_option KDict (params req) else None)
   \<and> build_fetcher_kwargs req ''proxy'' =
       (if truthy (FetcherGetRequest.proxy req)
        then map_option KStr (FetcherGetRequest.proxy req) else None)
   \<and> build_fetcher_kwargs req ''timeout'' = map_option KInt (FetcherGetRequest.timeout req)
   \<and> build_fetcher_kwargs req ''follow_redirects'' = map_option KBool (follow_redirects req)
   \<and> build_fetcher_kwargs req ''verify'' = map_option KBool (verify req)
   \<and> build_fetcher_kwargs req ''impersonate'' =
       (if truthy (impersonate req) then map_option KStr (impersonate req) else None)
   \<and> build_fetcher_kwargs req ''stealthy_headers'' = map_option KBool (stealthy_headers req)
   \<and> dom (build_fetcher_kwargs (FetcherGetRequest_init u)) =
       {''timeout'', ''follow_redirects'', ''verify'', ''stealthy_headers''}
   \<and> build_fetcher_kwargs (FetcherGetRequest_init u) ''timeout'' = Some (KInt 30)
   \<and> build_fetcher_kwargs (FetcherGetRequest_init u) ''follow_redirects'' = Some (KBool True)
   \<and> build_fetcher_kwargs (FetcherGetRequest_init u) ''verify'' = Some (KBool True)
   \<and> build_fetcher_kwargs (FetcherGetRequest_init u) ''stealthy_headers'' = Some (KBool True)"
proof -
  let ?m = "build_fetcher_kwargs (FetcherGetRequest_init u)"
  have absent: "?m ''headers'' = None" "?m ''cookies'' = None" "?m ''params'' = None"
    "?m ''proxy'' = None" "?m ''impersonate'' = None"
    by (simp_all add: fetcher_headers fetcher_cookies fetcher_params fetcher_proxy
          fetcher_impersonate fetcher_init_fields truthy_def)
  have present: "?m ''timeout'' = Some (KInt 30)" "?m ''follow_redirects'' = Some (KBool True)"
    "?m ''verify'' = Some (KBool True)" "?m ''stealthy_headers'' = Some (KBool True)"
    by (simp_all add: fetcher_timeout fetcher_follow_redirects fetcher_verify
          fetcher_stealthy_headers fetcher_init_fields)
  have "dom ?m = {''timeout'', ''follow_redirects'', ''verify'', ''stealthy_headers''}"
  proof
    show "dom ?m \<subseteq> {''timeout'', ''follow_redirects'', ''verify'', ''stealthy_headers''}"
    proof
      fix k
      assume k: "k \<in> dom ?m"
      then have "k \<in> {''headers'', ''cookies'', ''params'', ''proxy'', ''timeout'',
          ''follow_redirects'', ''verify'', ''impersonate'', ''stealthy_headers''}"
        by (rule subsetD [OF fetcher_dom])
      then have nine: "k = ''headers'' \<or> k = ''cookies'' \<or> k = ''params'' \<or> k = ''proxy'' \<or>
          k = ''timeout'' \<or> k = ''follow_redirects'' \<or> k = ''verify'' \<or>
          k = ''impersonate'' \<or> k = ''stealthy_headers''"
        by (simp only: insert_iff empty_iff simp_thms)
      have some: "?m k \<noteq> None"
        using k by (simp add: dom_def)
      have "k \<noteq> ''headers''" "k \<noteq> ''cookies''" "k \<noteq> ''params''" "k \<noteq> ''proxy''"
        "k \<noteq> ''impersonate''"
        using some absent by auto
      with nine have "k = ''timeout'' \<or> k = ''follow_redirects'' \<or> k = ''verify'' \<or>
          k = ''stealthy_headers''"
        by (simp only: simp_thms)
      then show "k \<in> {''timeout'', ''follow_redirects'', ''verify'', ''stealthy_headers''}"
        by (simp only: insert_iff empty_iff simp_thms)
    qed
    show "{''timeout'', ''follow_redirects'', ''verify'', ''stealthy_headers''} \<subseteq> dom ?m"
      using present by (simp add: dom_def)
  qed
  with present show ?thesis
    by (simp only: fetcher_dom fetcher_headers fetcher_cookies fetcher_params fetcher_proxy
          fetcher_timeout fetcher_follow_redirects fetcher_verify fetcher_impersonate
          fetcher_stealthy_headers simp_thms)
qed

text \<open>
  C5. For every browser fetch request the map holds the keys \<open>headless\<close>,
  \<open>disable_resources\<close>, \<open>network_idle\<close>, \<open>load_dom\<close>, \<open>real_chrome\<close>, \<open>google_search\<close>
  and \<open>timeout\<close>, each with the value of the request field (\<^verbatim>\<open>None\<close> when the field is
  null). For the request whose body is the url alone the values are the defaults of the
  gateway's model: true, false, false, true, false, true and 30000.
\<close>

theorem build_dynamic_kwargs_always_forwarded:
  "build_dynamic_kwargs req ''headless'' = Some (opt_bool (headless req))
   \<and> build_dynamic_kwargs req ''disable_resources'' = Some (opt_bool (disable_resources req))
   \<and> build_dynamic_kwargs req ''network_idle'' = Some (opt_bool (network_idle req))
   \<and> build_dynamic_kwargs req ''load_dom'' = Some (opt_bool (load_dom req))
   \<and> build_dynamic_kwargs req ''real_chrome'' = Some (opt_bool (real_chrome req))
   \<and> build_dynamic_kwargs req ''google_search'' = Some (opt_bool (google_search req))
   \<and> build_dynamic_kwargs req ''timeout'' = Some (opt_int (DynamicFetchRequest.timeout req))
   \<and> {''headless'', ''disable_resources'', ''network_idle'', ''load_dom'', ''real_chrome'',
       ''google_search'', ''timeout''} \<subseteq> dom (build_dynamic_kwargs req)
   \<and> build_dynamic_kwargs (DynamicFetchRequest_init u) ''headless'' = Some (KBool True)
   \<and> build_dynamic_kwargs (DynamicFetchRequest_init u) ''disable_resources'' = Some (KBool False)
   \<and> build_dynamic_kwargs (DynamicFetchRequest_init u) ''network_idle'' = Some (KBool False)
   \<and> build_dynamic_kwargs (DynamicFetchRequest_init u) ''load_dom'' = Some (KBool True)
   \<and> build_dynamic_kwargs (DynamicFetchRequest_init u) ''real_chrome'' = Some (KBool False)
   \<and> build_dynamic_kwargs (DynamicFetchRequest_init u) ''google_search'' = Some (KBool True)
   \<and> build_dynamic_kwargs (DynamicFetchRequest_init u) ''timeout'' = Some (KInt 30000)"
  by (simp add: dom_def dynamic_headless dynamic_disable_resources dynamic_network_idle
        dynamic_load_dom dynamic_real_chrome dynamic_google_search dynamic_timeout
        dynamic_init_fields opt_bool_def opt_int_def)

text \<open>
  C8. For every stealthy fetch request the map is the one the browser mapper builds for
  the same request, extended with \<open>allow_webgl\<close>, \<open>hide_canvas\<close>, \<open>block_webrtc\<close> and
  \<open>solve_cloudflare\<close>. The four keys are always present, with the value of the request
  field (\<^verbatim>\<open>None\<close> when it is null); the browser mapper never sets any of them, so
  nothing is overwritten, and away from the four keys the two maps agree.
\<close>

theorem build_stealthy_kwargs_extends_dynamic:
  "build_stealthy_kwargs req =
     (build_dynamic_kwargs req)
       (''allow_webgl'' \<mapsto> opt_bool (allow_webgl req),
        ''hide_canvas'' \<mapsto> opt_bool (hide_canvas req),
        ''block_webrtc'' \<mapsto> opt_bool (block_webrtc req),
        ''solve_cloudflare'' \<mapsto> opt_bool (solve_cloudflare req))
   \<and> build_stealthy_kwargs req ''allow_webgl'' = Some (opt_bool (allow_webgl req))
   \<and> build_stealthy_kwargs req ''hide_canvas'' = Some (opt_bool (hide_canvas req))
   \<and> build_stealthy_kwargs req ''block_webrtc'' = Some (opt_bool (block_webrtc req))
   \<and> build_stealthy_kwargs req ''solve_cloudflare'' = Some (opt_bool (solve_cloudflare req))
   \<and> build_dynamic_kwargs req ''allow_webgl'' = None
   \<and> build_dynamic_kwargs req ''hide_canvas'' = None
   \<and> build_dynamic_kwargs req ''block_webrtc'' = None
   \<and> build_dynamic_kwargs req ''solve_cloudflare'' = None
   \<and> build_stealthy_kwargs req |`
        (- {''allow_webgl'', ''hide_canvas'', ''block_webrtc'', ''solve_cloudflare''})
       = build_dynamic_kwargs req
   \<and> dom (build_stealthy_kwargs req) =
       dom (build_dynamic_kwargs req) \<union>
       {''allow_webgl'', ''hide_canvas'', ''block_webrtc'', ''solve_cloudflare''}"
proof -
  have restr: "build_stealthy_kwargs req |`
        (- {''allow_webgl'', ''hide_canvas'', ''block_webrtc'', ''solve_cloudflare''})
       = build_dynamic_kwargs req"
  proof
    fix k
    show "(build_stealthy_kwargs req |`
        (- {''allow_webgl'', ''hide_canvas'', ''block_webrtc'', ''solve_cloudflare''})) k
       = build_dynamic_kwargs req k"
      using dynamic_stealth_keys [of req]
      by (auto simp add: build_stealthy_kwargs_upd restrict_map_def)
  qed
  have "dom (build_stealthy_kwargs req) =
       dom (build_dynamic_kwargs req) \<union>
       {''allow_webgl'', ''hide_canvas'', ''block_webrtc'', ''solve_cloudflare''}"
    by (simp only: build_stealthy_kwargs_upd dom_fun_upd option.simps if_False)
       (simp only: insert_commute Un_insert_right Un_empty_right)
  with restr show ?thesis
    by (simp add: build_stealthy_kwargs_upd dynamic_stealth_keys)
qed


section \<open>The response normalizer\<close>





section \<open>Route dispatch\<close>








section \<open>Selector precedence and empty values\<close>

text \<open>
  C7. The claim: when both \<open>css_selector\<close> and \<open>xpath_selector\<close> are set, only the CSS
  selector is evaluated and the XPath selector is never run.

  It fails when the CSS selector is set to the empty string: the test
  \<^verbatim>\<open>if css_selector:\<close> is then false, and the XPath selector is the one that runs.
\<close>

theorem empty_css_selector_runs_xpath:
  "snd (response_to_dict sample_response (Some '''') (Some ''//a'')) = [XPathCall ''//a'']
   \<and> map_sum id selected_content
        (fst (response_to_dict sample_response (Some '''') (Some ''//a'')))
       = Inr (Some [''<a>xpath</a>''])"
  by (simp add: response_to_dict_def extract_headers_def extract_cookies_def extract_body_def
        select_content_def truthy_def sample_response_def)

text \<open>
  C7, as the code has it. When the CSS selector is not empty, the selection step runs
  the CSS selector and nothing else; \<open>selected_content\<close> is what that call gave (the
  elements, or the one error string), and the result of the normalizer is the same
  whatever the XPath selector is and whatever the XPath method of the response would do.
  The one selector call the normalizer makes is the CSS one (it makes none when it raises
  before it reaches the selection). On a route whose engine call returned, the outside
  calls are then the engine call and that CSS call, and nothing else. In every case the
  normalizer makes at most one selector call.
\<close>

theorem css_selector_precedence:
  "(c \<noteq> [] \<longrightarrow>
      select_content r (Some c) x =
        (Some (case css r c of Inr els \<Rightarrow> map element_text els
               | Inl e \<Rightarrow> [''CSS selector error: '' @ exn_str e]), [CssCall c])
      \<and> snd (response_to_dict r (Some c) x) =
          (if isl (extract_headers (Response.headers r))
              \<or> isl (extract_cookies (Response.cookies r)) \<or> isl (extract_body r)
           then [] else [CssCall c])
      \<and> map_sum id selected_content (fst (response_to_dict r (Some c) x)) =
          map_sum id
            (\<lambda>d. Some (case css r c of Inr els \<Rightarrow> map element_text els
                        | Inl e \<Rightarrow> [''CSS selector error: '' @ exn_str e]))
            (fst (response_to_dict r (Some c) x))
      \<and> response_to_dict (r\<lparr>xpath := f\<rparr>) (Some c) x' = response_to_dict r (Some c) x
      \<and> (engine_result eng rq = Inr r \<longrightarrow> request_css rq = Some c \<longrightarrow>
           snd (endpoint eng rq) =
             engine_call rq #
               (if isl (extract_headers (Response.headers r))
                   \<or> isl (extract_cookies (Response.cookies r)) \<or> isl (extract_body r)
                then [] else [CssCall c])))
   \<and> length (snd (response_to_dict r cs x)) \<le> 1"
proof -
  have indep: "response_to_dict (r\<lparr>xpath := f\<rparr>) (Some c) x' = response_to_dict r (Some c) x"
    if "c \<noteq> []"
    using that
    by (simp add: response_to_dict_def select_content_css extract_body_def
          split: body_obj.splits sum.splits)
  have sel: "map_sum id selected_content (fst (response_to_dict r (Some c) x)) =
      map_sum id
        (\<lambda>d. Some (case css r c of Inr els \<Rightarrow> map element_text els
                    | Inl e \<Rightarrow> [''CSS selector error: '' @ exn_str e]))
        (fst (response_to_dict r (Some c) x))"
    if "c \<noteq> []"
    using that
    by (cases "fst (response_to_dict r None None)")
       (simp_all add: fst_response_to_dict [of r "Some c" x] select_content_css)
  have calls: "snd (response_to_dict r (Some c) x) =
      (if isl (extract_headers (Response.headers r))
          \<or> isl (extract_cookies (Response.cookies r)) \<or> isl (extract_body r)
       then [] else [CssCall c])"
    if "c \<noteq> []"
    using that by (simp add: snd_response_to_dict select_content_css)
  have route: "snd (endpoint eng rq) =
      engine_call rq #
        (if isl (extract_headers (Response.headers r))
            \<or> isl (extract_cookies (Response.cookies r)) \<or> isl (extract_body r)
         then [] else [CssCall c])"
    if "c \<noteq> []" "engine_result eng rq = Inr r" "request_css rq = Some c"
    using that by (simp add: endpoint_Inr snd_response_to_dict select_content_css)
  have one: "length (snd (response_to_dict r cs x)) \<le> 1"
    using select_content_at_most_one [of r cs x] by (simp add: snd_response_to_dict)
  show ?thesis
    using indep sel calls route one select_content_css [of c r x]
    by (intro conjI impI) assumption+
qed

theorem css_selector_precedence_witness:
  "''p'' \<noteq> ''''
   \<and> snd (response_to_dict sample_response (Some ''p'') (Some ''//a'')) = [CssCall ''p'']
   \<and> map_sum id selected_content
        (fst (response_to_dict sample_response (Some ''p'') (Some ''//a'')))
       = Inr (Some [''<p>css</p>''])
   \<and> engine_result (constant_engine (Inr sample_response))
        (Get ((FetcherGetRequest_init ''https://example.com'')
           \<lparr>FetcherGetRequest.css_selector := Some ''p'',
            FetcherGetRequest.xpath_selector := Some ''//a''\<rparr>)) = Inr sample_response
   \<and> snd (endpoint (constant_engine (Inr sample_response))
        (Get ((FetcherGetRequest_init ''https://example.com'')
           \<lparr>FetcherGetRequest.css_selector := Some ''p'',
            FetcherGetRequest.xpath_selector := Some ''//a''\<rparr>)))
       = [engine_call (Get ((FetcherGetRequest_init ''https://example.com'')
           \<lparr>FetcherGetRequest.css_selector := Some ''p'',
            FetcherGetRequest.xpath_selector := Some ''//a''\<rparr>)), CssCall ''p'']"
proof -
  let ?rq = "Get ((FetcherGetRequest_init ''https://example.com'')
           \<lparr>FetcherGetRequest.css_selector := Some ''p'',
            FetcherGetRequest.xpath_selector := Some ''//a''\<rparr>)"
  have ne: "''p'' \<noteq> ''''"
    by simp
  have g: "engine_result (constant_engine (Inr sample_response)) ?rq = Inr sample_response"
    by (rule constant_engine_result)
  have c: "css sample_response ''p'' = Inr [WithHtml ''<p>css</p>'']"
    by (simp add: sample_response_def)
  have q: "request_css ?rq = Some ''p''"
    by simp
  have ok: "\<not> isl (extract_headers (Response.headers sample_response))"
    "\<not> isl (extract_cookies (Response.cookies sample_response))"
    "\<not> isl (extract_body sample_response)"
    by (simp_all add: extract_headers_def extract_cookies_def extract_body_def
          sample_response_def)
  have r: "fst (response_to_dict sample_response (Some ''p'') (Some ''//a'')) =
      Inr \<lparr> ResponseDict.url = ''https://example.com'', ResponseDict.status = AInt 200,
            ResponseDict.reason = AStr ''OK'',
            ResponseDict.headers = [(''content-type'', ''text/html'')],
            ResponseDict.cookies = [(AStr ''sid'', AStr ''42'')],
            ResponseDict.body = ''<html></html>'',
            selected_content = Some [''<p>css</p>''] \<rparr>"
    by (simp add: response_to_dict_def extract_headers_def extract_cookies_def extract_body_def
          select_content_def truthy_def sample_response_def)
  note inst = css_selector_precedence [of "''p''" sample_response "Some ''//a''"
      "xpath sample_response" "Some ''//a''" "constant_engine (Inr sample_response)" ?rq None]
  have a: "snd (response_to_dict sample_response (Some ''p'') (Some ''//a'')) = [CssCall ''p'']"
    using inst ne ok
    by (simp del: endpoint.simps engine_result.simps engine_call.simps request_css.simps)
  have b: "map_sum id selected_content
      (fst (response_to_dict sample_response (Some ''p'') (Some ''//a'')))
      = Inr (Some [''<p>css</p>''])"
    using r by simp
  have d: "snd (endpoint (constant_engine (Inr sample_response)) ?rq) =
      [engine_call ?rq, CssCall ''p'']"
    using inst ne ok g q
    by (simp del: endpoint.simps engine_result.simps engine_call.simps request_css.simps)
  show ?thesis
    by (intro conjI ne a b g d)
qed

text \<open>
  C9. The claim: when a body request holds both form data and a JSON payload, the JSON
  payload takes precedence over the form data when the options for the engine are built.

  It fails: the mapping drops neither. With the form data \<^verbatim>\<open>{"a": "b"}\<close> and the payload
  \<^verbatim>\<open>{"a": 1}\<close> the options hold both \<open>data\<close> and \<open>json\<close>, and they differ from the options
  of the same request without form data.
\<close>

theorem form_data_forwarded_beside_json:
  "build_data_kwargs ((FetcherDataRequest_init ''https://example.com'')
       \<lparr>data := Some [(''a'', ''b'')], json_data := JDict [(''a'', JInt 1)]\<rparr>) ''data''
     = Some (KDict [(''a'', ''b'')])
   \<and> build_data_kwargs ((FetcherDataRequest_init ''https://example.com'')
       \<lparr>data := Some [(''a'', ''b'')], json_data := JDict [(''a'', JInt 1)]\<rparr>) ''json''
     = Some (KJson (JDict [(''a'', JInt 1)]))
   \<and> build_data_kwargs ((FetcherDataRequest_init ''https://example.com'')
       \<lparr>data := Some [(''a'', ''b'')], json_data := JDict [(''a'', JInt 1)]\<rparr>) ''data''
     \<noteq> build_data_kwargs ((FetcherDataRequest_init ''https://example.com'')
       \<lparr>data := None, json_data := JDict [(''a'', JInt 1)]\<rparr>) ''data''"
  by (simp add: build_data_kwargs_data build_data_kwargs_json truthy_def)

text \<open>
  C9, as the code has it. The options of a body request are those of the plain mapper
  with two more entries, set independently of each other: \<open>data\<close>, present exactly when
  the form data is neither null nor empty, and \<open>json\<close>, present exactly when the payload
  is not null. So when both are present, both are forwarded, each with its own value.
  These options are the ones in the call of the engine's post and put operation.
\<close>

theorem body_options_forward_both:
  "build_data_kwargs req ''data'' =
     (if truthy (data req) then map_option KDict (data req) else None)
   \<and> build_data_kwargs req ''json'' =
       (if json_data req \<noteq> JNone then Some (KJson (json_data req)) else None)
   \<and> build_data_kwargs req |` (- {''data'', ''json''}) = build_fetcher_kwargs req
   \<and> hd (snd (fetcher_post eng req)) =
       EngineCall ''Fetcher.post'' (FetcherGetRequest.url req) (build_data_kwargs req)
   \<and> hd (snd (fetcher_put eng req)) =
       EngineCall ''Fetcher.put'' (FetcherGetRequest.url req) (build_data_kwargs req)"
proof -
  have none: "build_fetcher_kwargs req ''data'' = None" "build_fetcher_kwargs req ''json'' = None"
    by (simp_all add: fetcher_other)
  have "(build_data_kwargs req |` (- {''data'', ''json''})) k = build_fetcher_kwargs req k" for k
    using none
    by (auto simp add: build_data_kwargs_def Let_def set_if_dict_apply restrict_map_def)
  then have restr: "build_data_kwargs req |` (- {''data'', ''json''}) = build_fetcher_kwargs req"
    by (rule ext)
  have hd_calls: "hd (snd (call_and_respond name op u kw c x)) = EngineCall name u kw"
    for name op u kw c x
    by (simp add: call_and_respond_def split: sum.splits prod.splits)
  show ?thesis
    by (simp add: build_data_kwargs_data build_data_kwargs_json restr fetcher_post_def
          fetcher_put_def Let_def hd_calls)
qed

text \<open>
  C10. The claim: a field set to an empty value is treated exactly like an unset field
  and is omitted from the options; an empty \<open>css_selector\<close> is treated as absent, so that
  a non-empty \<open>xpath_selector\<close> is evaluated.

  It fails for \<open>wait_selector_state\<close>: left unset, the field takes the default
  \<^verbatim>\<open>attached\<close> of the model and is forwarded; set to the empty string, it is omitted.
\<close>

theorem empty_wait_selector_state_not_like_unset:
  "build_dynamic_kwargs (DynamicFetchRequest_init ''https://example.com'') ''wait_selector_state''
     = Some (KStr ''attached'')
   \<and> build_dynamic_kwargs ((DynamicFetchRequest_init ''https://example.com'')
       \<lparr>wait_selector_state := Some ''''\<rparr>) ''wait_selector_state'' = None"
  by (simp add: dynamic_wait_selector_state dynamic_init_fields truthy_def)

text \<open>
  C10, as the code has it. For each of the listed fields, the options built from a
  request with the field set to the empty string (or the empty map) are the options built
  from the same request with the field set to null, and the key is absent. For all of them
  but \<open>wait_selector_state\<close> null is also the value an unset field takes. With an empty CSS
  selector the normalizer does what it does with no CSS selector, and the selection step
  then runs a non-empty XPath selector and nothing else: it is the one selector call the
  normalizer makes (it makes none when it raises before it reaches the selection).
\<close>

theorem empty_values_like_null:
  "build_fetcher_kwargs (req\<lparr>FetcherGetRequest.proxy := Some ''''\<rparr>)
     = build_fetcher_kwargs (req\<lparr>FetcherGetRequest.proxy := None\<rparr>)
   \<and> build_fetcher_kwargs (req\<lparr>impersonate := Some ''''\<rparr>)
     = build_fetcher_kwargs (req\<lparr>impersonate := None\<rparr>)
   \<and> build_fetcher_kwargs (req\<lparr>FetcherGetRequest.headers := Some []\<rparr>)
     = build_fetcher_kwargs (req\<lparr>FetcherGetRequest.headers := None\<rparr>)
   \<and> build_fetcher_kwargs (req\<lparr>FetcherGetRequest.cookies := Some []\<rparr>)
     = build_fetcher_kwargs (req\<lparr>FetcherGetRequest.cookies := None\<rparr>)
   \<and> build_fetcher_kwargs (req\<lparr>params := Some []\<rparr>)
     = build_fetcher_kwargs (req\<lparr>params := None\<rparr>)
   \<and> build_fetcher_kwargs (req\<lparr>FetcherGetRequest.proxy := Some ''''\<rparr>) ''proxy'' = None
   \<and> build_fetcher_kwargs (req\<lparr>impersonate := Some ''''\<rparr>) ''impersonate'' = None
   \<and> build_fetcher_kwargs (req\<lparr>FetcherGetRequest.headers := Some []\<rparr>) ''headers'' = None
   \<and> build_fetcher_kwargs (req\<lparr>FetcherGetRequest.cookies := Some []\<rparr>) ''cookies'' = None
   \<and> build_fetcher_kwargs (req\<lparr>params := Some []\<rparr>) ''params'' = None
   \<and> build_dynamic_kwargs (dreq\<lparr>wait_selector := Some ''''\<rparr>)
     = build_dynamic_kwargs (dreq\<lparr>wait_selector := None\<rparr>)
   \<and> build_dynamic_kwargs (dreq\<lparr>wait_selector_state := Some ''''\<rparr>)
     = build_dynamic_kwargs (dreq\<lparr>wait_selector_state := None\<rparr>)
   \<and> build_dynamic_kwargs (dreq\<lparr>locale' := Some ''''\<rparr>)
     = build_dynamic_kwargs (dreq\<lparr>locale' := None\<rparr>)
   \<and> build_dynamic_kwargs (dreq\<lparr>cdp_url := Some ''''\<rparr>)
     = build_dynamic_kwargs (dreq\<lparr>cdp_url := None\<rparr>)
   \<and> build_dynamic_kwargs (dreq\<lparr>DynamicFetchRequest.proxy := Some ''''\<rparr>)
     = build_dynamic_kwargs (dreq\<lparr>DynamicFetchRequest.proxy := None\<rparr>)
   \<and> build_dynamic_kwargs (dreq\<lparr>useragent := Some ''''\<rparr>)
     = build_dynamic_kwargs (dreq\<lparr>useragent := None\<rparr>)
   \<and> build_dynamic_kwargs (dreq\<lparr>extra_headers := Some []\<rparr>)
     = build_dynamic_kwargs (dreq\<lparr>extra_headers := None\<rparr>)
   \<and> build_dynamic_kwargs (dreq\<lparr>wait_selector := Some ''''\<rparr>) ''wait_selector'' = None
   \<and> build_dynamic_kwargs (dreq\<lparr>wait_selector_state := Some ''''\<rparr>) ''wait_selector_state'' = None
   \<and> build_dynamic_kwargs (dreq\<lparr>locale' := Some ''''\<rparr>) ''locale'' = None
   \<and> build_dynamic_kwargs (dreq\<lparr>cdp_url := Some ''''\<rparr>) ''cdp_url'' = None
   \<and> build_dynamic_kwargs (dreq\<lparr>DynamicFetchRequest.proxy := Some ''''\<rparr>) ''proxy'' = None
   \<and> build_dynamic_kwargs (dreq\<lparr>useragent := Some ''''\<rparr>) ''useragent'' = None
   \<and> build_dynamic_kwargs (dreq\<lparr>extra_headers := Some []\<rparr>) ''extra_headers'' = None
   \<and> FetcherGetRequest.proxy (FetcherGetRequest_init u) = None
   \<and> impersonate (FetcherGetRequest_init u) = None
   \<and> FetcherGetRequest.headers (FetcherGetRequest_init u) = None
   \<and> FetcherGetRequest.cookies (FetcherGetRequest_init u) = None
   \<and> params (FetcherGetRequest_init u) = None
   \<and> wait_selector (DynamicFetchRequest_init u) = None
   \<and> locale' (DynamicFetchRequest_init u) = None
   \<and> cdp_url (DynamicFetchRequest_init u) = None
   \<and> DynamicFetchRequest.proxy (DynamicFetchRequest_init u) = None
   \<and> useragent (DynamicFetchRequest_init u) = None
   \<and> extra_headers (DynamicFetchRequest_init u) = None
   \<and> response_to_dict r (Some '''') xp = response_to_dict r None xp
   \<and> (x \<noteq> [] \<longrightarrow>
        select_content r (Some '''') (Some x) =
          (Some (case xpath r x of Inr els \<Rightarrow> map element_text els
                 | Inl e \<Rightarrow> [''XPath selector error: '' @ exn_str e]), [XPathCall x])
        \<and> snd (response_to_dict r (Some '''') (Some x)) =
            (if isl (extract_headers (Response.headers r))
                \<or> isl (extract_cookies (Response.cookies r)) \<or> isl (extract_body r)
             then [] else [XPathCall x])
        \<and> map_sum id selected_content (fst (response_to_dict r (Some '''') (Some x))) =
            map_sum id
              (\<lambda>d. Some (case xpath r x of Inr els \<Rightarrow> map element_text els
                          | Inl e \<Rightarrow> [''XPath selector error: '' @ exn_str e]))
              (fst (response_to_dict r (Some '''') (Some x))))"
proof -
  have eqs:
    "build_fetcher_kwargs (req\<lparr>FetcherGetRequest.proxy := Some ''''\<rparr>)
       = build_fetcher_kwargs (req\<lparr>FetcherGetRequest.proxy := None\<rparr>)"
    "build_fetcher_kwargs (req\<lparr>impersonate := Some ''''\<rparr>)
       = build_fetcher_kwargs (req\<lparr>impersonate := None\<rparr>)"
    "build_fetcher_kwargs (req\<lparr>FetcherGetRequest.headers := Some []\<rparr>)
       = build_fetcher_kwargs (req\<lparr>FetcherGetRequest.headers := None\<rparr>)"
    "build_fetcher_kwargs (req\<lparr>FetcherGetRequest.cookies := Some []\<rparr>)
       = build_fetcher_kwargs (req\<lparr>FetcherGetRequest.cookies := None\<rparr>)"
    "build_fetcher_kwargs (req\<lparr>params := Some []\<rparr>)
       = build_fetcher_kwargs (req\<lparr>params := None\<rparr>)"
    by (simp_all add: build_fetcher_kwargs_def set_if_str_def set_if_dict_def)
  have deqs:
    "build_dynamic_kwargs (dreq\<lparr>wait_selector := Some ''''\<rparr>)
       = build_dynamic_kwargs (dreq\<lparr>wait_selector := None\<rparr>)"
    "build_dynamic_kwargs (dreq\<lparr>wait_selector_state := Some ''''\<rparr>)
       = build_dynamic_kwargs (dreq\<lparr>wait_selector_state := None\<rparr>)"
    "build_dynamic_kwargs (dreq\<lparr>locale' := Some ''''\<rparr>)
       = build_dynamic_kwargs (dreq\<lparr>locale' := None\<rparr>)"
    "build_dynamic_kwargs (dreq\<lparr>cdp_url := Some ''''\<rparr>)
       = build_dynamic_kwargs (dreq\<lparr>cdp_url := None\<rparr>)"
    "build_dynamic_kwargs (dreq\<lparr>DynamicFetchRequest.proxy := Some ''''\<rparr>)
       = build_dynamic_kwargs (dreq\<lparr>DynamicFetchRequest.proxy := None\<rparr>)"
    "build_dynamic_kwargs (dreq\<lparr>useragent := Some ''''\<rparr>)
       = build_dynamic_kwargs (dreq\<lparr>useragent := None\<rparr>)"
    "build_dynamic_kwargs (dreq\<lparr>extra_headers := Some []\<rparr>)
       = build_dynamic_kwargs (dreq\<lparr>extra_headers := None\<rparr>)"
    by (simp_all add: build_dynamic_kwargs_def set_if_str_def set_if_dict_def)
  have absent:
    "build_fetcher_kwargs (req\<lparr>FetcherGetRequest.proxy := Some ''''\<rparr>) ''proxy'' = None"
    "build_fetcher_kwargs (req\<lparr>impersonate := Some ''''\<rparr>) ''impersonate'' = None"
    "build_fetcher_kwargs (req\<lparr>FetcherGetRequest.headers := Some []\<rparr>) ''headers'' = None"
    "build_fetcher_kwargs (req\<lparr>FetcherGetRequest.cookies := Some []\<rparr>) ''cookies'' = None"
    "build_fetcher_kwargs (req\<lparr>params := Some []\<rparr>) ''params'' = None"
    by (simp_all add: fetcher_proxy fetcher_impersonate fetcher_headers fetcher_cookies
          fetcher_params truthy_def)
  have dabsent:
    "build_dynamic_kwargs (dreq\<lparr>wait_selector := Some ''''\<rparr>) ''wait_selector'' = None"
    "build_dynamic_kwargs (dreq\<lparr>wait_selector_state := Some ''''\<rparr>) ''wait_selector_state'' = None"
    "build_dynamic_kwargs (dreq\<lparr>locale' := Some ''''\<rparr>) ''locale'' = None"
    "build_dynamic_kwargs (dreq\<lparr>cdp_url := Some ''''\<rparr>) ''cdp_url'' = None"
    "build_dynamic_kwargs (dreq\<lparr>DynamicFetchRequest.proxy := Some ''''\<rparr>) ''proxy'' = None"
    "build_dynamic_kwargs (dreq\<lparr>useragent := Some ''''\<rparr>) ''useragent'' = None"
    "build_dynamic_kwargs (dreq\<lparr>extra_headers := Some []\<rparr>) ''extra_headers'' = None"
    by (simp_all add: dynamic_wait_selector dynamic_wait_selector_state dynamic_locale
          dynamic_cdp_url dynamic_proxy dynamic_useragent dynamic_extra_headers truthy_def)
  have inits:
    "FetcherGetRequest.proxy (FetcherGetRequest_init u) = None"
    "impersonate (FetcherGetRequest_init u) = None"
    "FetcherGetRequest.headers (FetcherGetRequest_init u) = None"
    "FetcherGetRequest.cookies (FetcherGetRequest_init u) = None"
    "params (FetcherGetRequest_init u) = None"
    "wait_selector (DynamicFetchRequest_init u) = None"
    "locale' (DynamicFetchRequest_init u) = None"
    "cdp_url (DynamicFetchRequest_init u) = None"
    "DynamicFetchRequest.proxy (DynamicFetchRequest_init u) = None"
    "useragent (DynamicFetchRequest_init u) = None"
    "extra_headers (DynamicFetchRequest_init u) = None"
    by (simp_all add: FetcherGetRequest_init_def DynamicFetchRequest_init_def)
  have sc: "select_content r (Some '''') xp = select_content r None xp"
    by (simp add: select_content_def truthy_def)
  have sel: "response_to_dict r (Some '''') xp = response_to_dict r None xp"
    unfolding response_to_dict_def sc by (rule refl)
  have xsel: "select_content r (Some '''') (Some x) =
      (Some (case xpath r x of Inr els \<Rightarrow> map element_text els
             | Inl e \<Rightarrow> [''XPath selector error: '' @ exn_str e]), [XPathCall x])"
    if "x \<noteq> []"
    using that by (simp add: select_content_xpath truthy_def)
  have xcalls: "snd (response_to_dict r (Some '''') (Some x)) =
      (if isl (extract_headers (Response.headers r))
          \<or> isl (extract_cookies (Response.cookies r)) \<or> isl (extract_body r)
       then [] else [XPathCall x])"
    if "x \<noteq> []"
    using that by (simp add: snd_response_to_dict xsel)
  have xcontent: "map_sum id selected_content (fst (response_to_dict r (Some '''') (Some x))) =
      map_sum id
        (\<lambda>d. Some (case xpath r x of Inr els \<Rightarrow> map element_text els
                    | Inl e \<Rightarrow> [''XPath selector error: '' @ exn_str e]))
        (fst (response_to_dict r (Some '''') (Some x)))"
    if "x \<noteq> []"
    using that
    by (cases "fst (response_to_dict r None None)")
       (simp_all add: fst_response_to_dict [of r "Some ''''" "Some x"] xsel)
  have xp: "x \<noteq> [] \<longrightarrow>
        select_content r (Some '''') (Some x) =
          (Some (case xpath r x of Inr els \<Rightarrow> map element_text els
                 | Inl e \<Rightarrow> [''XPath selector error: '' @ exn_str e]), [XPathCall x])
        \<and> snd (response_to_dict r (Some '''') (Some x)) =
            (if isl (extract_headers (Response.headers r))
                \<or> isl (extract_cookies (Response.cookies r)) \<or> isl (extract_body r)
             then [] else [XPathCall x])
        \<and> map_sum id selected_content (fst (response_to_dict r (Some '''') (Some x))) =
            map_sum id
              (\<lambda>d. Some (case xpath r x of Inr els \<Rightarrow> map element_text els
                          | Inl e \<Rightarrow> [''XPath selector error: '' @ exn_str e]))
              (fst (response_to_dict r (Some '''') (Some x)))"
    using xsel xcalls xcontent by (intro conjI impI) assumption+
  show ?thesis
    by (intro conjI eqs deqs absent dabsent inits sel xp)
qed

theorem empty_values_like_null_witness:
  "''//a'' \<noteq> ''''
   \<and> snd (response_to_dict sample_response (Some '''') (Some ''//a'')) = [XPathCall ''//a'']
   \<and> select_content sample_response (Some '''') (Some ''//a'')
       = (Some [''<a>xpath</a>''], [XPathCall ''//a''])
   \<and> build_dynamic_kwargs ((DynamicFetchRequest_init ''https://example.com'')
        \<lparr>useragent := Some ''''\<rparr>) ''useragent'' = None"
proof -
  have x: "xpath sample_response ''//a'' = Inr [WithHtml ''<a>xpath</a>'']"
    by (simp add: sample_response_def)
  have ok: "\<not> isl (extract_headers (Response.headers sample_response))"
    "\<not> isl (extract_cookies (Response.cookies sample_response))"
    "\<not> isl (extract_body sample_response)"
    by (simp_all add: extract_headers_def extract_cookies_def extract_body_def
          sample_response_def)
  note inst =
    empty_values_like_null [where req = "FetcherGetRequest_init ''https://example.com''"
      and dreq = "DynamicFetchRequest_init ''https://example.com''"
      and u = "''https://example.com''" and r = sample_response and xp = None
      and x = "''//a''"]
  have sel: "''//a'' \<noteq> [] \<longrightarrow>
        select_content sample_response (Some '''') (Some ''//a'') =
          (Some (case xpath sample_response ''//a'' of Inr els \<Rightarrow> map element_text els
                 | Inl e \<Rightarrow> [''XPath selector error: '' @ exn_str e]), [XPathCall ''//a''])
        \<and> snd (response_to_dict sample_response (Some '''') (Some ''//a'')) =
            (if isl (extract_headers (Response.headers sample_response))
                \<or> isl (extract_cookies (Response.cookies sample_response))
                \<or> isl (extract_body sample_response)
             then [] else [XPathCall ''//a''])
        \<and> map_sum id selected_content
            (fst (response_to_dict sample_response (Some '''') (Some ''//a''))) =
            map_sum id
              (\<lambda>d. Some (case xpath sample_response ''//a'' of
                            Inr els \<Rightarrow> map element_text els
                          | Inl e \<Rightarrow> [''XPath selector error: '' @ exn_str e]))
              (fst (response_to_dict sample_response (Some '''') (Some ''//a'')))"
    using inst by (elim conjE)
  have ua: "build_dynamic_kwargs ((DynamicFetchRequest_init ''https://example.com'')
        \<lparr>useragent := Some ''''\<rparr>) ''useragent'' = None"
    using inst by (elim conjE)
  from sel ua x ok show ?thesis
    by simp
qed

end
